theory Spec2Isabelle
  imports Main "HOL-Library.Sublist"
begin

section \<open>The status-line printer of \<open>src/line_printer.cc\<close> (POSIX build)\<close>

text \<open>
  The printer is a class with a handful of mutable members, two process-wide
  function-local statics (the cached modes) and one output stream, \<open>stdout\<close>.
  The model passes one record through every call: the members, the two statics
  and the sequence of calls made on \<open>stdout\<close> so far. What the operating system
  and the rest of the repository answer during a call (the environment, the
  terminal, \<open>ElideMiddle\<close> of \<open>util.cc\<close>) is a parameter of the call.
  The \<open>_WIN32\<close> branches are not modelled.
\<close>

subsection \<open>Bytes\<close>

definition NUL :: char where "NUL = CHR 0x00"
definition NL :: char where "NL = CHR 0x0A"
definition CR :: char where "CR = CHR 0x0D"
definition ESC :: char where "ESC = CHR 0x1B"

text \<open>
  \<open>s.c_str()\<close> handed to \<open>printf("%s")\<close>: the bytes of the \<open>std::string\<close> before
  its first null byte (the comment in \<open>PrintOrBuffer\<close> is about this).
\<close>

definition c_str :: "string \<Rightarrow> string" where
  "c_str s = takeWhile (\<lambda>c. c \<noteq> NUL) s"

subsection \<open>Data\<close>

datatype LineType = FULL | ELIDE

datatype e_reformat_mode = none | pretty

datatype e_status_print_mode = singleline | multiline | scrolling

text \<open>One call on \<open>stdout\<close>: bytes written (by \<open>printf\<close> or \<open>fwrite\<close>), or \<open>fflush\<close>.\<close>

datatype stdio_call = Wr string | Fl

fun bytes_of :: "stdio_call list \<Rightarrow> string" where
  "bytes_of [] = []"
| "bytes_of (Wr b # cs) = b @ bytes_of cs"
| "bytes_of (Fl # cs) = bytes_of cs"

record state =
  have_blank_line :: bool
  console_locked :: bool
  smart_terminal :: bool
  supports_color :: bool
  line_buffer :: string
  line_type :: LineType
  output_buffer :: string
  reformat_mode_static :: "e_reformat_mode option"
  status_print_mode_static :: "e_status_print_mode option"
  stdout :: "stdio_call list"

text \<open>
  The surroundings of a call. \<open>getenv\<close> gives the C string of a variable
  (\<open>None\<close> for a null pointer); \<open>isatty1\<close> is \<open>isatty(1)\<close>; \<open>TIOCGWINSZ\<close> is
  \<open>None\<close> when the \<open>ioctl\<close> fails and otherwise the \<open>ws_col\<close> it filled in;
  \<open>ElideMiddle\<close> is the function of \<open>util.cc\<close>, which is not part of this file.
\<close>

record extern =
  getenv :: "string \<Rightarrow> string option"
  isatty1 :: bool
  TIOCGWINSZ :: "nat option"
  ElideMiddle :: "string \<Rightarrow> nat \<Rightarrow> string"

subsection \<open>The stream\<close>

definition printf :: "string \<Rightarrow> state \<Rightarrow> state" where
  "printf b s = s\<lparr>stdout := stdout s @ [Wr b]\<rparr>"

definition fwrite :: "string \<Rightarrow> state \<Rightarrow> state" where
  "fwrite b s = s\<lparr>stdout := stdout s @ [Wr b]\<rparr>"

definition fflush :: "state \<Rightarrow> state" where
  "fflush s = s\<lparr>stdout := stdout s @ [Fl]\<rparr>"

subsection \<open>The constructor\<close>

text \<open>
  \<open>line_type_\<close> has no initialiser, so its first value \<open>lt0\<close> is a parameter, as
  are the statics and the stream of the process at the time of construction.
\<close>

definition LinePrinter ::
  "extern \<Rightarrow> LineType \<Rightarrow> e_reformat_mode option \<Rightarrow> e_status_print_mode option
     \<Rightarrow> stdio_call list \<Rightarrow> state" where
  "LinePrinter ext lt0 rm0 sm0 out0 =
     (let term = getenv ext ''TERM'';
          smart = (isatty1 ext \<and> term \<noteq> None \<and> term \<noteq> Some ''dumb'');
          color = (if smart then True
                   else (case getenv ext ''CLICOLOR_FORCE'' of
                           None \<Rightarrow> False
                         | Some v \<Rightarrow> v \<noteq> ''0''))
      in \<lparr>have_blank_line = True, console_locked = False,
          smart_terminal = smart, supports_color = color,
          line_buffer = [], line_type = lt0, output_buffer = [],
          reformat_mode_static = rm0, status_print_mode_static = sm0,
          stdout = out0\<rparr>)"

subsection \<open>The cached modes\<close>

text \<open>
  A function-local static is initialised by the first call that reaches it and
  never again: \<open>None\<close> is "not yet initialised".
\<close>

definition GetReformatMode :: "extern \<Rightarrow> state \<Rightarrow> e_reformat_mode \<times> state" where
  "GetReformatMode ext s =
     (case reformat_mode_static s of
        Some m \<Rightarrow> (m, s)
      | None \<Rightarrow>
          (let m = (case getenv ext ''DSICILIA_NINJA_REFORMAT_MODE'' of
                      None \<Rightarrow> none
                    | Some v \<Rightarrow> if v = ''pretty'' then pretty else none)
           in (m, s\<lparr>reformat_mode_static := Some m\<rparr>)))"

definition GetStatusPrintMode :: "extern \<Rightarrow> state \<Rightarrow> e_status_print_mode \<times> state" where
  "GetStatusPrintMode ext s =
     (case status_print_mode_static s of
        Some m \<Rightarrow> (m, s)
      | None \<Rightarrow>
          (let m = (case getenv ext ''DSICILIA_NINJA_STATUS_PRINT_MODE'' of
                      None \<Rightarrow> singleline
                    | Some v \<Rightarrow> if v = ''multiline'' then multiline
                                else if v = ''scrolling'' then scrolling
                                else singleline)
           in (m, s\<lparr>status_print_mode_static := Some m\<rparr>)))"

subsection \<open>The regular expressions of \<open>CustomFormat\<close>\<close>

text \<open>
  \<open>CustomFormat\<close> calls \<open>std::regex_replace\<close> with twelve patterns of the default
  (ECMAScript) grammar. The patterns use literals, \<open>.\<close>, bracket classes, greedy
  \<open>*\<close> and \<open>+\<close>, and capture groups, so the model has exactly these, as a
  backtracking matcher in continuation-passing style: a continuation that
  answers \<open>None\<close> sends the matcher back to its last open choice, which is how
  the library's matcher finds the first match in priority order.
\<close>

datatype regex =
    Empty
  | Lit char
  | AnyChar
  | OneOf "char list"
  | NoneOf "char list"
  | Star regex
  | Plus regex
  | Group nat regex
  | Seq regex regex

type_synonym captures = "(nat \<times> string) list"

type_synonym 'r cont = "string \<Rightarrow> captures \<Rightarrow> 'r option"

fun one_char :: "(char \<Rightarrow> bool) \<Rightarrow> string \<Rightarrow> captures \<Rightarrow> 'r cont \<Rightarrow> 'r option" where
  "one_char p [] cs k = None"
| "one_char p (x # xs) cs k = (if p x then k xs cs else None)"

text \<open>
  A greedy repetition tries one more round of its body before it tries to stop;
  a round that consumes nothing is not taken (ECMAScript's rule for \<open>*\<close>).
\<close>

fun greedy ::
  "(string \<Rightarrow> captures \<Rightarrow> 'r cont \<Rightarrow> 'r option) \<Rightarrow> string \<Rightarrow> captures \<Rightarrow> 'r cont \<Rightarrow> 'r option" where
  "greedy f s cs k =
     (case f s cs (\<lambda>s' cs'. if length s' < length s then greedy f s' cs' k else None) of
        Some r \<Rightarrow> Some r
      | None \<Rightarrow> k s cs)"

text \<open>\<open>.\<close> matches every character but the line terminators \<open>\n\<close> and \<open>\r\<close>.\<close>

primrec matches :: "regex \<Rightarrow> string \<Rightarrow> captures \<Rightarrow> 'r cont \<Rightarrow> 'r option" where
  "matches Empty = (\<lambda>s cs k. k s cs)"
| "matches (Lit c) = one_char (\<lambda>x. x = c)"
| "matches AnyChar = one_char (\<lambda>x. x \<noteq> NL \<and> x \<noteq> CR)"
| "matches (OneOf cl) = one_char (\<lambda>x. x \<in> set cl)"
| "matches (NoneOf cl) = one_char (\<lambda>x. x \<notin> set cl)"
| "matches (Star r) = greedy (matches r)"
| "matches (Plus r) = (\<lambda>s cs k. matches r s cs (\<lambda>s' cs'. greedy (matches r) s' cs' k))"
| "matches (Group i r) =
     (\<lambda>s cs k. matches r s cs (\<lambda>s' cs'. k s' ((i, take (length s - length s') s) # cs')))"
| "matches (Seq a b) = (\<lambda>s cs k. matches a s cs (\<lambda>s' cs'. matches b s' cs' k))"

text \<open>The first match that starts at the head of \<open>s\<close>: what is left, and the groups.\<close>

definition match_at :: "regex \<Rightarrow> string \<Rightarrow> (string \<times> captures) option" where
  "match_at r s = matches r s [] (\<lambda>s' cs'. Some (s', cs'))"

text \<open>A format string, cut at its \<open>$n\<close>: literal text and group references.\<close>

datatype piece = Text string | Sub nat

fun expand :: "piece list \<Rightarrow> captures \<Rightarrow> string" where
  "expand [] cs = []"
| "expand (Text t # ps) cs = t @ expand ps cs"
| "expand (Sub i # ps) cs = (case map_of cs i of Some g \<Rightarrow> g | None \<Rightarrow> []) @ expand ps cs"

text \<open>
  \<open>regex_replace\<close> copies the input, replacing every match, found from left to
  right, each search starting where the last match ended. Every pattern of
  \<open>CustomFormat\<close> has a literal in it, so none of its matches is empty; the
  library's special treatment of an empty match is not modelled, and such a
  match counts as no match.
\<close>

fun regex_replace :: "string \<Rightarrow> regex \<Rightarrow> piece list \<Rightarrow> string" where
  "regex_replace s r fmt =
     (case match_at r s of
        Some (rest, cs) \<Rightarrow>
          if length rest < length s then expand fmt cs @ regex_replace rest r fmt
          else (case s of [] \<Rightarrow> [] | c # s' \<Rightarrow> c # regex_replace s' r fmt)
      | None \<Rightarrow> (case s of [] \<Rightarrow> [] | c # s' \<Rightarrow> c # regex_replace s' r fmt))"

text \<open>
  Both recursive equations are unconditional; they are unfolded by hand or by
  evaluation, never by the simplifier on its own.
\<close>

declare greedy.simps [simp del]

declare regex_replace.simps [simp del]

fun str :: "string \<Rightarrow> regex" where
  "str [] = Empty"
| "str (c # cs) = Seq (Lit c) (str cs)"

text \<open>\<open>(.*) ([^ ]+)\<close>, the tail of six of the patterns.\<close>

definition rest_and_target :: regex where
  "rest_and_target =
     Seq (Group 1 (Star AnyChar)) (Seq (Lit CHR '' '') (Group 2 (Plus (NoneOf '' ''))))"

text \<open>The twelve rules, pattern and format, in the order of the source.\<close>

definition rule_flatbuffer :: "regex \<times> piece list" where
  \<comment> \<open>\<open>Building flatbuffer for (.*)\<close>\<close>
  "rule_flatbuffer =
     (Seq (str ''Building flatbuffer for '') (Group 1 (Star AnyChar)),
      [Text (ESC # ''[35mbuilding flatbuffer'' @ ESC # ''[0m '' @ ESC # ''[34m''), Sub 1,
       Text (ESC # ''[0m'')])"

definition rule_rnl :: "regex \<times> piece list" where
  \<comment> \<open>\<open>Building rnl definition (.*)\<close>\<close>
  "rule_rnl =
     (Seq (str ''Building rnl definition '') (Group 1 (Star AnyChar)),
      [Text (ESC # ''[36mbuilding rnl script'' @ ESC # ''[0m '' @ ESC # ''[34m''), Sub 1,
       Text (ESC # ''[0m'')])"

definition rule_building_cxx :: "regex \<times> piece list" where
  \<comment> \<open>\<open>Building CXX(.*) ([^ ]+)\<close>\<close>
  "rule_building_cxx =
     (Seq (str ''Building CXX'') rest_and_target,
      [Text (ESC # ''[32mbuilding c++''), Sub 1, Text ('' '' @ ESC # ''[34m''), Sub 2,
       Text (ESC # ''[0m'')])"

definition rule_linking_cxx_static :: "regex \<times> piece list" where
  \<comment> \<open>\<open>Linking CXX static library(.*) ([^ ]+)\<close>\<close>
  "rule_linking_cxx_static =
     (Seq (str ''Linking CXX static library'') rest_and_target,
      [Text (ESC # ''[33;1mlinking: c++ static''), Sub 1, Text ('' '' @ ESC # ''[34;1m''), Sub 2,
       Text (ESC # ''[0m'')])"

definition rule_building_c :: "regex \<times> piece list" where
  \<comment> \<open>\<open>Building C(.*) ([^ ]+)\<close>\<close>
  "rule_building_c =
     (Seq (str ''Building C'') rest_and_target,
      [Text (ESC # ''[32mbuilding c  ''), Sub 1, Text ('' '' @ ESC # ''[34m''), Sub 2,
       Text (ESC # ''[0m'')])"

definition rule_linking_cxx_exe :: "regex \<times> piece list" where
  \<comment> \<open>\<open>Linking CXX executable(.*) ([^ ]+)\<close>\<close>
  "rule_linking_cxx_exe =
     (Seq (str ''Linking CXX executable'') rest_and_target,
      [Text (ESC # ''[33;1mlinking: c++ binary''), Sub 1, Text ('' '' @ ESC # ''[34;1m''), Sub 2,
       Text (ESC # ''[0m'')])"

definition rule_linking_c_static :: "regex \<times> piece list" where
  \<comment> \<open>\<open>Linking C static library(.*) ([^ ]+)\<close>\<close>
  "rule_linking_c_static =
     (Seq (str ''Linking C static library'') rest_and_target,
      [Text (ESC # ''[33;1mlinking: c   static''), Sub 1, Text ('' '' @ ESC # ''[34;1m''), Sub 2,
       Text (ESC # ''[0m'')])"

definition rule_linking_c :: "regex \<times> piece list" where
  \<comment> \<open>\<open>Linking C(.*) ([^ ]+)\<close>\<close>
  "rule_linking_c =
     (Seq (str ''Linking C'') rest_and_target,
      [Text (ESC # ''[33;1mlinking: c  ''), Sub 1, Text ('' '' @ ESC # ''[34;1m''), Sub 2,
       Text (ESC # ''[0m'')])"

definition rule_dir :: "regex \<times> piece list" where
  \<comment> \<open>\<open>[^/ ]+\.dir/\<close>\<close>
  "rule_dir = (Seq (Plus (NoneOf ''/ '')) (str ''.dir/''), [])"

definition rule_cmakefiles :: "regex \<times> piece list" where
  \<comment> \<open>\<open>CMakeFiles/\<close>\<close>
  "rule_cmakefiles = (str ''CMakeFiles/'', [])"

definition rule_cpp_o :: "regex \<times> piece list" where
  \<comment> \<open>\<open>\.cpp\.o\<close>\<close>
  "rule_cpp_o = (str ''.cpp.o'', [Text ''.cpp''])"

definition rule_progress :: "regex \<times> piece list" where
  \<comment> \<open>\<open>\[([ 0-9]+)/([ 0-9]+)\]\<close>\<close>
  "rule_progress =
     (Seq (Lit CHR ''['') (Seq (Group 1 (Plus (OneOf '' 0123456789'')))
        (Seq (Lit CHR ''/'') (Seq (Group 2 (Plus (OneOf '' 0123456789''))) (Lit CHR '']'')))),
      [Text (''['' @ ESC # ''[37;1m''), Sub 1, Text (ESC # ''[0m/'' @ ESC # ''[37m''), Sub 2,
       Text (ESC # ''[0m]'')])"

definition CustomFormat :: "string \<Rightarrow> string" where
  "CustomFormat input =
     (let res = input;
          res = regex_replace res (fst rule_flatbuffer) (snd rule_flatbuffer);
          res = regex_replace res (fst rule_rnl) (snd rule_rnl);
          res = regex_replace res (fst rule_building_cxx) (snd rule_building_cxx);
          res = regex_replace res (fst rule_linking_cxx_static) (snd rule_linking_cxx_static);
          res = regex_replace res (fst rule_building_c) (snd rule_building_c);
          res = regex_replace res (fst rule_linking_cxx_exe) (snd rule_linking_cxx_exe);
          res = regex_replace res (fst rule_linking_c_static) (snd rule_linking_c_static);
          res = regex_replace res (fst rule_linking_c) (snd rule_linking_c);
          res = regex_replace res (fst rule_dir) (snd rule_dir);
          res = regex_replace res (fst rule_cmakefiles) (snd rule_cmakefiles);
          res = regex_replace res (fst rule_cpp_o) (snd rule_cpp_o);
          res = regex_replace res (fst rule_progress) (snd rule_progress)
      in res)"

text \<open>The same rules as a list, in the order in which \<open>CustomFormat\<close> applies them.\<close>

definition rules :: "(regex \<times> piece list) list" where
  "rules =
     [rule_flatbuffer, rule_rnl, rule_building_cxx, rule_linking_cxx_static, rule_building_c,
      rule_linking_cxx_exe, rule_linking_c_static, rule_linking_c, rule_dir, rule_cmakefiles,
      rule_cpp_o, rule_progress]"

text \<open>
  What a terminal shows of a text once its colour sequences (\<open>ESC\<close> up to the
  next \<open>m\<close>) are taken out; the flag says whether a sequence is open.
\<close>

fun shown :: "bool \<Rightarrow> string \<Rightarrow> string" where
  "shown b [] = []"
| "shown False (c # cs) = (if c = ESC then shown True cs else c # shown False cs)"
| "shown True (c # cs) = (if c = CHR ''m'' then shown False cs else shown True cs)"

subsection \<open>The raw write path\<close>

definition PrintOrBuffer :: "string \<Rightarrow> state \<Rightarrow> state" where
  "PrintOrBuffer data s =
     (if console_locked s then s\<lparr>output_buffer := output_buffer s @ data\<rparr>
      else fwrite data s)"

text \<open>The first statement of both raw operations.\<close>

definition flush_line_buffer :: "state \<Rightarrow> state" where
  "flush_line_buffer s =
     (if console_locked s \<and> line_buffer s \<noteq> []
      then s\<lparr>output_buffer := output_buffer s @ line_buffer s @ [NL], line_buffer := []\<rparr>
      else s)"

definition PrintWithoutNewLine :: "string \<Rightarrow> state \<Rightarrow> state" where
  "PrintWithoutNewLine to_print s =
     (let s1 = flush_line_buffer s;
          s2 = (if to_print \<noteq> [] then PrintOrBuffer to_print s1 else s1)
      in s2\<lparr>have_blank_line :=
              (to_print \<noteq> [] \<and> hd to_print = NL) \<or> (to_print = [] \<and> have_blank_line s2)\<rparr>)"

definition PrintOnNewLine :: "string \<Rightarrow> state \<Rightarrow> state" where
  "PrintOnNewLine to_print s =
     (let s1 = flush_line_buffer s;
          s2 = (if \<not> have_blank_line s1 then PrintOrBuffer [NL] s1 else s1);
          s3 = (if to_print \<noteq> [] then PrintOrBuffer to_print s2 else s2)
      in s3\<lparr>have_blank_line := (to_print = [] \<or> last to_print = NL)\<rparr>)"

subsection \<open>The status line\<close>

definition Print :: "extern \<Rightarrow> string \<Rightarrow> LineType \<Rightarrow> state \<Rightarrow> state" where
  "Print ext text0 type s0 =
     (let (rm, s1) = GetReformatMode ext s0;
          to_print = (if rm = pretty then CustomFormat text0 else text0)
      in if console_locked s1 then s1\<lparr>line_buffer := to_print, line_type := type\<rparr>
         else
           (let (sm, s2) = GetStatusPrintMode ext s1
            in if sm = multiline then printf (c_str to_print @ [NL]) s2
               else
                 (let s3 = (if smart_terminal s2 then printf [CR] s2 else s2)
                  in if smart_terminal s3 \<and> type = ELIDE
                     then
                       (let elided = (case TIOCGWINSZ ext of
                                        Some ws_col \<Rightarrow>
                                          if ws_col \<noteq> 0 then ElideMiddle ext to_print ws_col
                                          else to_print
                                      | None \<Rightarrow> to_print);
                            s4 = printf (c_str elided) s3;
                            s5 = printf (ESC # ''[K'') s4;
                            s6 = fflush s5
                        in s6\<lparr>have_blank_line := False\<rparr>)
                     else printf (c_str to_print @ [NL]) s3)))"

subsection \<open>The console lock\<close>

text \<open>
  On unlock the source hands the member \<open>output_buffer_\<close> itself to
  \<open>PrintWithoutNewLine\<close>; the console is unlocked by then, so that call does not
  touch the member and passing its value is the same. \<open>Print\<close> takes its text by
  value.
\<close>

definition SetConsoleLocked :: "extern \<Rightarrow> bool \<Rightarrow> state \<Rightarrow> state" where
  "SetConsoleLocked ext locked s =
     (if locked = console_locked s then s
      else
        (let s1 = (if locked then fflush (printf (CR # ESC # ''[K'' @ [CR]) s) else s);
             s2 = s1\<lparr>console_locked := locked\<rparr>
         in if \<not> locked
            then
              (let s3 = PrintWithoutNewLine (output_buffer s2) s2;
                   s4 = (if line_buffer s3 \<noteq> []
                         then Print ext (line_buffer s3) (line_type s3) s3 else s3)
               in s4\<lparr>output_buffer := [], line_buffer := []\<rparr>)
            else s2))"

subsection \<open>Sequences of calls\<close>

datatype call =
    CallPrint string LineType
  | CallPrintWithoutNewLine string
  | CallPrintOnNewLine string
  | CallPrintOrBuffer string
  | CallSetConsoleLocked bool

fun do_call :: "extern \<Rightarrow> call \<Rightarrow> state \<Rightarrow> state" where
  "do_call ext (CallPrint t k) s = Print ext t k s"
| "do_call ext (CallPrintWithoutNewLine t) s = PrintWithoutNewLine t s"
| "do_call ext (CallPrintOnNewLine t) s = PrintOnNewLine t s"
| "do_call ext (CallPrintOrBuffer t) s = PrintOrBuffer t s"
| "do_call ext (CallSetConsoleLocked b) s = SetConsoleLocked ext b s"

text \<open>Each call of a run comes with the surroundings it is made in.\<close>

fun run :: "(extern \<times> call) list \<Rightarrow> state \<Rightarrow> state" where
  "run [] s = s"
| "run ((ext, c) # cs) s = run cs (do_call ext c s)"

text \<open>The calls \<open>stdout\<close> received between the state \<open>s\<close> and the later state \<open>s'\<close>.\<close>

definition emitted :: "state \<Rightarrow> state \<Rightarrow> stdio_call list" where
  "emitted s s' = drop (length (stdout s)) (stdout s')"

subsection \<open>Sample surroundings and states\<close>

text \<open>
  No variable set and no terminal on file descriptor 1, so the \<open>ioctl\<close> fails.
  Where a sample has a terminal, it is 80 columns wide and every sample text is
  shorter, which \<open>ElideMiddle\<close> returns as it is; the identity stands in for it.
\<close>

definition plain_ext :: extern where
  "plain_ext = \<lparr>getenv = (\<lambda>v. None), isatty1 = False, TIOCGWINSZ = None,
                 ElideMiddle = (\<lambda>t w. t)\<rparr>"

text \<open>An interactive terminal, no mode variable set.\<close>

definition tty_ext :: extern where
  "tty_ext = \<lparr>getenv = (\<lambda>v. if v = ''TERM'' then Some ''xterm'' else None),
               isatty1 = True, TIOCGWINSZ = Some 80, ElideMiddle = (\<lambda>t w. t)\<rparr>"

text \<open>An interactive terminal with the pretty mode asked for.\<close>

definition pretty_ext :: extern where
  "pretty_ext =
     \<lparr>getenv = (\<lambda>v. if v = ''TERM'' then Some ''xterm''
                     else if v = ''DSICILIA_NINJA_REFORMAT_MODE'' then Some ''pretty''
                     else None),
      isatty1 = True, TIOCGWINSZ = Some 80, ElideMiddle = (\<lambda>t w. t)\<rparr>"

text \<open>No terminal, the multiline mode asked for.\<close>

definition multiline_ext :: extern where
  "multiline_ext =
     \<lparr>getenv = (\<lambda>v. if v = ''DSICILIA_NINJA_STATUS_PRINT_MODE'' then Some ''multiline''
                     else None),
      isatty1 = False, TIOCGWINSZ = None, ElideMiddle = (\<lambda>t w. t)\<rparr>"

text \<open>Fresh printers, one in each of the four surroundings.\<close>

definition plain_start :: state where
  "plain_start = LinePrinter plain_ext FULL None None []"

definition tty_start :: state where
  "tty_start = LinePrinter tty_ext FULL None None []"

definition pretty_start :: state where
  "pretty_start = LinePrinter pretty_ext FULL None None []"

definition multiline_start :: state where
  "multiline_start = LinePrinter multiline_ext FULL None None []"

text \<open>A locked printer holding a pending status line and some buffered output.\<close>

definition locked_pending :: state where
  "locked_pending =
     \<lparr>have_blank_line = False, console_locked = True,
      smart_terminal = True, supports_color = True,
      line_buffer = ''[1/2] a'', line_type = ELIDE, output_buffer = ''x'',
      reformat_mode_static = None, status_print_mode_static = None,
      stdout = []\<rparr>"

text \<open>Two short runs: one that ends locked with buffered output, one status line.\<close>

definition locked_calls :: "(extern \<times> call) list" where
  "locked_calls =
     [(plain_ext, CallSetConsoleLocked True), (plain_ext, CallPrint ''a'' FULL),
      (plain_ext, CallPrintOnNewLine ''x'')]"

definition status_calls :: "(extern \<times> call) list" where
  "status_calls = [(tty_ext, CallPrint ''[1/2] a'' ELIDE)]"

subsection \<open>The invariant of the buffers\<close>

definition buffers_idle :: "state \<Rightarrow> bool" where
  "buffers_idle s \<longleftrightarrow> (\<not> console_locked s \<longrightarrow> line_buffer s = [] \<and> output_buffer s = [])"

subsection \<open>Write calls and their raw bytes\<close>




subsection \<open>What the spec says a locked console stores\<close>





text \<open>A run that reaches the unlock with both a pending line and buffered output.\<close>

definition pending_calls :: "(extern \<times> call) list" where
  "pending_calls =
     [(plain_ext, CallSetConsoleLocked True), (plain_ext, CallPrintOnNewLine ''x''),
      (plain_ext, CallPrint ''a'' FULL)]"

section \<open>Basic facts\<close>

lemmas printer_defs =
  LinePrinter_def Print_def SetConsoleLocked_def PrintWithoutNewLine_def PrintOnNewLine_def
  PrintOrBuffer_def flush_line_buffer_def GetReformatMode_def GetStatusPrintMode_def
  printf_def fwrite_def fflush_def c_str_def Let_def

lemmas sample_defs = plain_ext_def tty_ext_def pretty_ext_def multiline_ext_def NL_def CR_def ESC_def NUL_def

lemma GetReformatMode_fields:
  "console_locked (snd (GetReformatMode ext s)) = console_locked s"
  "line_buffer (snd (GetReformatMode ext s)) = line_buffer s"
  "output_buffer (snd (GetReformatMode ext s)) = output_buffer s"
  "stdout (snd (GetReformatMode ext s)) = stdout s"
  "have_blank_line (snd (GetReformatMode ext s)) = have_blank_line s"
  "smart_terminal (snd (GetReformatMode ext s)) = smart_terminal s"
  by (simp_all add: GetReformatMode_def Let_def split: option.splits)

lemma GetStatusPrintMode_fields:
  "console_locked (snd (GetStatusPrintMode ext s)) = console_locked s"
  "line_buffer (snd (GetStatusPrintMode ext s)) = line_buffer s"
  "output_buffer (snd (GetStatusPrintMode ext s)) = output_buffer s"
  "stdout (snd (GetStatusPrintMode ext s)) = stdout s"
  "have_blank_line (snd (GetStatusPrintMode ext s)) = have_blank_line s"
  "smart_terminal (snd (GetStatusPrintMode ext s)) = smart_terminal s"
  by (simp_all add: GetStatusPrintMode_def Let_def split: option.splits)

lemma Print_console_locked: "console_locked (Print ext t k s) = console_locked s"
  by (simp add: Print_def Let_def split_def printf_def fflush_def GetReformatMode_fields GetStatusPrintMode_fields)

lemma Print_unlocked_buffers:
  "\<not> console_locked s \<Longrightarrow>
     line_buffer (Print ext t k s) = line_buffer s \<and> output_buffer (Print ext t k s) = output_buffer s"
  by (simp add: Print_def Let_def split_def printf_def fflush_def GetReformatMode_fields GetStatusPrintMode_fields)

lemma SetConsoleLocked_buffers:
  "line_buffer (SetConsoleLocked ext False s) = (if console_locked s then [] else line_buffer s)"
  "output_buffer (SetConsoleLocked ext False s) = (if console_locked s then [] else output_buffer s)"
  "console_locked (SetConsoleLocked ext b s) = b"
  by (auto simp add: SetConsoleLocked_def Let_def Print_console_locked PrintWithoutNewLine_def flush_line_buffer_def PrintOrBuffer_def fwrite_def printf_def fflush_def)

lemma GetReformatMode_result:
  "fst (GetReformatMode ext s) = m \<Longrightarrow>
     GetReformatMode ext s = (m, s\<lparr>reformat_mode_static := Some m\<rparr>)"
proof (cases "reformat_mode_static s")
  case None
  assume "fst (GetReformatMode ext s) = m"
  with None show ?thesis
    by (simp add: GetReformatMode_def Let_def)
next
  case (Some a)
  assume "fst (GetReformatMode ext s) = m"
  with Some have "a = m"
    by (simp add: GetReformatMode_def)
  moreover have "s\<lparr>reformat_mode_static := reformat_mode_static s\<rparr> = s"
    by simp
  ultimately show ?thesis
    using Some by (simp add: GetReformatMode_def)
qed

lemma GetStatusPrintMode_reformat_update:
  "GetStatusPrintMode ext (s\<lparr>reformat_mode_static := x\<rparr>) =
     (fst (GetStatusPrintMode ext s), (snd (GetStatusPrintMode ext s))\<lparr>reformat_mode_static := x\<rparr>)"
  by (cases "status_print_mode_static s") (simp_all add: GetStatusPrintMode_def Let_def)

lemma Print_pretty_is_Print_of_CustomFormat:
  assumes "fst (GetReformatMode ext s) = pretty"
  shows "Print ext t k s =
           (Print ext (CustomFormat t) k (s\<lparr>reformat_mode_static := Some none\<rparr>))
             \<lparr>reformat_mode_static := Some pretty\<rparr>"
proof -
  have l: "GetReformatMode ext s = (pretty, s\<lparr>reformat_mode_static := Some pretty\<rparr>)"
    using assms by (rule GetReformatMode_result)
  have r: "GetReformatMode ext (s\<lparr>reformat_mode_static := Some none\<rparr>) =
             (none, s\<lparr>reformat_mode_static := Some none\<rparr>)"
    by (simp add: GetReformatMode_def)
  show ?thesis
    unfolding Print_def l r
    by (simp add: GetStatusPrintMode_reformat_update GetStatusPrintMode_fields Let_def split_def
          printf_def fflush_def)
qed

lemma stdout_Print: "stdout (Print ext t k s) = stdout s @ emitted s (Print ext t k s)"
  by (simp add: emitted_def Print_def Let_def split_def printf_def fflush_def GetReformatMode_fields GetStatusPrintMode_fields)

lemma SetConsoleLocked_same: "b = console_locked s \<Longrightarrow> SetConsoleLocked ext b s = s"
  by (simp add: SetConsoleLocked_def)

lemma lock_state:
  "\<not> console_locked s \<Longrightarrow>
     SetConsoleLocked ext True s =
       s\<lparr>stdout := stdout s @ [Wr (CR # ESC # ''[K'' @ [CR]), Fl], console_locked := True\<rparr>"
  by (simp add: SetConsoleLocked_def Let_def printf_def fflush_def)

lemma Print_stdout_prefix: "prefix (stdout s) (stdout (Print ext t k s))"
  by (simp add: Print_def Let_def split_def printf_def fflush_def GetReformatMode_fields GetStatusPrintMode_fields)

lemma unlock_state:
  "console_locked s \<Longrightarrow>
     SetConsoleLocked ext False s =
       (if line_buffer s \<noteq> []
        then Print ext (line_buffer s) (line_type s)
               (PrintWithoutNewLine (output_buffer s) (s\<lparr>console_locked := False\<rparr>))
        else PrintWithoutNewLine (output_buffer s) (s\<lparr>console_locked := False\<rparr>))
       \<lparr>output_buffer := [], line_buffer := []\<rparr>"
  by (simp add: SetConsoleLocked_def Let_def PrintWithoutNewLine_def flush_line_buffer_def
        PrintOrBuffer_def fwrite_def)

lemma stdout_PrintWithoutNewLine_unlocked:
  "\<not> console_locked s \<Longrightarrow>
     stdout (PrintWithoutNewLine t s) = stdout s @ (if t = [] then [] else [Wr t])"
  by (simp add: PrintWithoutNewLine_def flush_line_buffer_def PrintOrBuffer_def fwrite_def Let_def)

lemma unlock_stdout_prefix:
  assumes "console_locked s"
  shows "prefix (stdout s @ (if output_buffer s = [] then [] else [Wr (output_buffer s)]))
           (stdout (SetConsoleLocked ext False s))"
proof -
  let ?s3 = "PrintWithoutNewLine (output_buffer s) (s\<lparr>console_locked := False\<rparr>)"
  have s3: "stdout ?s3 = stdout s @ (if output_buffer s = [] then [] else [Wr (output_buffer s)])"
    by (simp add: stdout_PrintWithoutNewLine_unlocked)
  show ?thesis
  proof (cases "line_buffer s = []")
    case True
    then show ?thesis
      using assms s3 by (simp add: unlock_state)
  next
    case False
    have "prefix (stdout ?s3) (stdout (Print ext (line_buffer s) (line_type s) ?s3))"
      by (rule Print_stdout_prefix)
    then show ?thesis
      using assms False s3 by (simp add: unlock_state)
  qed
qed

lemma run_append: "run (cs @ ds) s = run ds (run cs s)"
  by (induction cs arbitrary: s) auto

lemma run_locked_calls:
  "run locked_calls (LinePrinter plain_ext FULL None None []) =
     \<lparr>have_blank_line = False, console_locked = True,
      smart_terminal = False, supports_color = False,
      line_buffer = [], line_type = FULL, output_buffer = ''a'' @ [NL] @ ''x'',
      reformat_mode_static = Some none, status_print_mode_static = None,
      stdout = [Wr (CR # ESC # ''[K'' @ [CR]), Fl]\<rparr>"
  by (simp add: locked_calls_def printer_defs sample_defs)

lemma run_status_calls:
  "run status_calls (LinePrinter tty_ext FULL None None []) =
     \<lparr>have_blank_line = False, console_locked = False,
      smart_terminal = True, supports_color = True,
      line_buffer = [], line_type = FULL, output_buffer = [],
      reformat_mode_static = Some none, status_print_mode_static = Some singleline,
      stdout = [Wr [CR], Wr ''[1/2] a'', Wr (ESC # ''[K''), Fl]\<rparr>"
  by (simp add: status_calls_def printer_defs sample_defs)

subsection \<open>The invariant is kept\<close>

lemma buffers_idle_do_call: "buffers_idle s \<Longrightarrow> buffers_idle (do_call ext c s)"
  apply (cases c)
  apply (auto simp add: buffers_idle_def Print_console_locked Print_unlocked_buffers SetConsoleLocked_buffers
     PrintWithoutNewLine_def PrintOnNewLine_def flush_line_buffer_def PrintOrBuffer_def fwrite_def Let_def)
  done

lemma buffers_idle_run: "buffers_idle s \<Longrightarrow> buffers_idle (run cs s)"
  by (induction cs arbitrary: s) (auto simp: buffers_idle_do_call)

lemma buffers_idle_LinePrinter: "buffers_idle (LinePrinter ext lt0 rm0 sm0 out0)"
  by (simp add: buffers_idle_def LinePrinter_def Let_def)


subsection \<open>The formatter\<close>

lemma CustomFormat_example:
  "CustomFormat ''Building CXX obj foo.cpp.o'' =
     ESC # ''[32mbuilding c++ obj '' @ ESC # ''[34mfoo.cpp'' @ ESC # ''[0m''"
  by code_simp

lemma building_cxx_example:
  "regex_replace ''Building CXX obj foo.cpp.o'' (fst rule_building_cxx) (snd rule_building_cxx) =
     ESC # ''[32mbuilding c++ obj '' @ ESC # ''[34mfoo.cpp.o'' @ ESC # ''[0m''"
  by code_simp

lemma shown_example:
  "shown False (ESC # ''[32mbuilding c++ obj '' @ ESC # ''[34mfoo.cpp'' @ ESC # ''[0m'') =
     ''building c++ obj foo.cpp''"
  by (simp add: ESC_def)

lemma CustomFormat_rules:
  "CustomFormat t = foldl (\<lambda>res rule. regex_replace res (fst rule) (snd rule)) t rules"
  by (simp add: CustomFormat_def rules_def Let_def)

lemma Print_locked:
  "console_locked s \<Longrightarrow>
     Print ext t k s =
       (snd (GetReformatMode ext s))
         \<lparr>line_buffer := (if fst (GetReformatMode ext s) = pretty then CustomFormat t else t),
          line_type := k\<rparr>"
  by (simp add: Print_def Let_def split_def GetReformatMode_fields)

lemma Print_elide:
  assumes "\<not> console_locked s" "smart_terminal s"
    and "fst (GetStatusPrintMode ext (snd (GetReformatMode ext s))) \<noteq> multiline"
    and "TIOCGWINSZ ext = Some w" "w \<noteq> 0"
  shows "emitted s (Print ext t ELIDE s) =
           [Wr [CR],
            Wr (c_str (ElideMiddle ext
                         (if fst (GetReformatMode ext s) = pretty then CustomFormat t else t) w)),
            Wr (ESC # ''[K''), Fl]"
  using assms
  by (simp add: emitted_def Print_def Let_def split_def GetReformatMode_fields
        GetStatusPrintMode_fields printf_def fflush_def)

lemma pretty_start_eq:
  "pretty_start =
     \<lparr>have_blank_line = True, console_locked = False,
      smart_terminal = True, supports_color = True,
      line_buffer = [], line_type = FULL, output_buffer = [],
      reformat_mode_static = None, status_print_mode_static = None,
      stdout = []\<rparr>"
  by (simp add: pretty_start_def LinePrinter_def pretty_ext_def)

subsection \<open>The statics\<close>

lemma GetReformatMode_cached:
  "GetReformatMode ext' (snd (GetReformatMode ext s)) =
     (fst (GetReformatMode ext s), snd (GetReformatMode ext s))"
  by (cases "reformat_mode_static s") (simp_all add: GetReformatMode_def Let_def)

lemma GetStatusPrintMode_cached:
  "GetStatusPrintMode ext' (snd (GetStatusPrintMode ext s)) =
     (fst (GetStatusPrintMode ext s), snd (GetStatusPrintMode ext s))"
  by (cases "status_print_mode_static s") (simp_all add: GetStatusPrintMode_def Let_def)

lemma statics_of_Get:
  "reformat_mode_static (snd (GetReformatMode ext s)) = Some (fst (GetReformatMode ext s))"
  "status_print_mode_static (snd (GetReformatMode ext s)) = status_print_mode_static s"
  "status_print_mode_static (snd (GetStatusPrintMode ext s)) = Some (fst (GetStatusPrintMode ext s))"
  "reformat_mode_static (snd (GetStatusPrintMode ext s)) = reformat_mode_static s"
  by (simp_all add: GetReformatMode_def GetStatusPrintMode_def Let_def split: option.splits)

lemma fst_Get_Some:
  "reformat_mode_static s = Some m \<Longrightarrow> fst (GetReformatMode ext s) = m"
  "status_print_mode_static s = Some m' \<Longrightarrow> fst (GetStatusPrintMode ext s) = m'"
  by (simp_all add: GetReformatMode_def GetStatusPrintMode_def)

lemma Print_keeps_statics:
  "reformat_mode_static s = Some m \<Longrightarrow> reformat_mode_static (Print ext t k s) = Some m"
  "status_print_mode_static s = Some m' \<Longrightarrow> status_print_mode_static (Print ext t k s) = Some m'"
  by (simp_all add: Print_def Let_def split_def printf_def fflush_def statics_of_Get fst_Get_Some)

lemma raw_keeps_statics:
  "reformat_mode_static (PrintOrBuffer t s) = reformat_mode_static s"
  "status_print_mode_static (PrintOrBuffer t s) = status_print_mode_static s"
  "reformat_mode_static (PrintWithoutNewLine t s) = reformat_mode_static s"
  "status_print_mode_static (PrintWithoutNewLine t s) = status_print_mode_static s"
  "reformat_mode_static (PrintOnNewLine t s) = reformat_mode_static s"
  "status_print_mode_static (PrintOnNewLine t s) = status_print_mode_static s"
  by (simp_all add: PrintOrBuffer_def PrintWithoutNewLine_def PrintOnNewLine_def
        flush_line_buffer_def fwrite_def Let_def)

lemma SetConsoleLocked_keeps_statics:
  "reformat_mode_static s = Some m \<Longrightarrow> reformat_mode_static (SetConsoleLocked ext b s) = Some m"
  "status_print_mode_static s = Some m' \<Longrightarrow>
     status_print_mode_static (SetConsoleLocked ext b s) = Some m'"
  by (simp_all add: SetConsoleLocked_def Let_def printf_def fflush_def Print_keeps_statics
        raw_keeps_statics)

lemma do_call_keeps_statics:
  "reformat_mode_static s = Some m \<Longrightarrow> reformat_mode_static (do_call ext c s) = Some m"
  "status_print_mode_static s = Some m' \<Longrightarrow> status_print_mode_static (do_call ext c s) = Some m'"
  by (cases c; simp add: Print_keeps_statics raw_keeps_statics SetConsoleLocked_keeps_statics)+

lemma run_keeps_reformat_mode:
  "reformat_mode_static s = Some m \<Longrightarrow> reformat_mode_static (run cs s) = Some m"
  by (induction cs arbitrary: s) (auto simp: do_call_keeps_statics)

lemma run_keeps_status_print_mode:
  "status_print_mode_static s = Some m \<Longrightarrow> status_print_mode_static (run cs s) = Some m"
  by (induction cs arbitrary: s) (auto simp: do_call_keeps_statics)

lemma reformat_mode_of_env:
  "reformat_mode_static s = None \<Longrightarrow>
     fst (GetReformatMode ext s) =
       (if getenv ext ''DSICILIA_NINJA_REFORMAT_MODE'' = Some ''pretty'' then pretty else none)"
  by (simp add: GetReformatMode_def Let_def split: option.splits)

lemma status_print_mode_of_env:
  "status_print_mode_static s = None \<Longrightarrow>
     fst (GetStatusPrintMode ext s) =
       (if getenv ext ''DSICILIA_NINJA_STATUS_PRINT_MODE'' = Some ''multiline'' then multiline
        else if getenv ext ''DSICILIA_NINJA_STATUS_PRINT_MODE'' = Some ''scrolling'' then scrolling
        else singleline)"
  by (simp add: GetStatusPrintMode_def Let_def split: option.splits)

lemma Print_multiline:
  assumes "\<not> console_locked s"
    and "fst (GetStatusPrintMode ext (snd (GetReformatMode ext s))) = multiline"
  shows "Print ext t k s =
           (snd (GetStatusPrintMode ext (snd (GetReformatMode ext s))))
             \<lparr>stdout := stdout s @
                [Wr (c_str (if fst (GetReformatMode ext s) = pretty then CustomFormat t else t)
                       @ [NL])]\<rparr>"
  using assms
  by (simp add: Print_def Let_def split_def printf_def GetReformatMode_fields
        GetStatusPrintMode_fields)

lemma c_str_no_NUL: "NUL \<notin> set t \<Longrightarrow> c_str t = t"
  by (auto simp: c_str_def)


lemma multiline_start_eq:
  "multiline_start =
     \<lparr>have_blank_line = True, console_locked = False,
      smart_terminal = False, supports_color = False,
      line_buffer = [], line_type = FULL, output_buffer = [],
      reformat_mode_static = None, status_print_mode_static = None,
      stdout = []\<rparr>"
  by (simp add: multiline_start_def LinePrinter_def multiline_ext_def)

subsection \<open>\<open>Print\<close> on a locked console\<close>

lemma plain_start_eq:
  "plain_start =
     \<lparr>have_blank_line = True, console_locked = False,
      smart_terminal = False, supports_color = False,
      line_buffer = [], line_type = FULL, output_buffer = [],
      reformat_mode_static = None, status_print_mode_static = None,
      stdout = []\<rparr>"
  by (simp add: plain_start_def LinePrinter_def plain_ext_def)

lemma tty_start_eq:
  "tty_start =
     \<lparr>have_blank_line = True, console_locked = False,
      smart_terminal = True, supports_color = True,
      line_buffer = [], line_type = FULL, output_buffer = [],
      reformat_mode_static = None, status_print_mode_static = None,
      stdout = []\<rparr>"
  by (simp add: tty_start_def LinePrinter_def tty_ext_def)

lemma GetReformatMode_after_Print_locked:
  "GetReformatMode ext ((snd (GetReformatMode ext s))\<lparr>line_buffer := b, line_type := k\<rparr>) =
     (fst (GetReformatMode ext s), (snd (GetReformatMode ext s))\<lparr>line_buffer := b, line_type := k\<rparr>)"
  by (cases "reformat_mode_static s") (simp_all add: GetReformatMode_def Let_def)

lemma Print_Print_locked:
  assumes "console_locked s"
  shows "Print ext t2 k2 (Print ext t1 k1 s) = Print ext t2 k2 s"
proof -
  have "console_locked (Print ext t1 k1 s)"
    using assms by (simp add: Print_console_locked)
  then have "Print ext t2 k2 (Print ext t1 k1 s) =
      (snd (GetReformatMode ext (Print ext t1 k1 s)))
         \<lparr>line_buffer := (if fst (GetReformatMode ext (Print ext t1 k1 s)) = pretty
                           then CustomFormat t2 else t2),
          line_type := k2\<rparr>"
    by (rule Print_locked)
  also have "\<dots> = Print ext t2 k2 s"
    using assms by (simp add: Print_locked GetReformatMode_after_Print_locked)
  finally show ?thesis .
qed

lemma run_Prints_locked:
  "console_locked s \<Longrightarrow> ps \<noteq> [] \<Longrightarrow>
     run (map (\<lambda>p. (ext, CallPrint (fst p) (snd p))) ps) s =
       Print ext (fst (last ps)) (snd (last ps)) s"
proof (induction ps arbitrary: s)
  case Nil
  then show ?case by simp
next
  case (Cons p ps)
  show ?case
  proof (cases "ps = []")
    case True
    then show ?thesis by simp
  next
    case False
    have "console_locked (Print ext (fst p) (snd p) s)"
      using Cons.prems(1) by (simp add: Print_console_locked)
    then have "run (map (\<lambda>p. (ext, CallPrint (fst p) (snd p))) ps) (Print ext (fst p) (snd p) s) =
        Print ext (fst (last ps)) (snd (last ps)) (Print ext (fst p) (snd p) s)"
      using False by (rule Cons.IH)
    then show ?thesis
      using False Cons.prems(1) by (simp add: Print_Print_locked)
  qed
qed

subsection \<open>Writes on a locked console\<close>



lemma unlock_stdout:
  assumes "console_locked s"
  shows "stdout (SetConsoleLocked ext False s) =
           stdout s @ (if output_buffer s = [] then [] else [Wr (output_buffer s)]) @
           (if line_buffer s = [] then []
            else emitted (PrintWithoutNewLine (output_buffer s) (s\<lparr>console_locked := False\<rparr>))
                   (Print ext (line_buffer s) (line_type s)
                      (PrintWithoutNewLine (output_buffer s) (s\<lparr>console_locked := False\<rparr>))))"
proof -
  let ?s3 = "PrintWithoutNewLine (output_buffer s) (s\<lparr>console_locked := False\<rparr>)"
  have s3: "stdout ?s3 = stdout s @ (if output_buffer s = [] then [] else [Wr (output_buffer s)])"
    by (simp add: stdout_PrintWithoutNewLine_unlocked)
  show ?thesis
  proof (cases "line_buffer s = []")
    case True
    then show ?thesis
      using assms s3 by (simp add: unlock_state)
  next
    case False
    then show ?thesis
      using assms s3 stdout_Print [of ext "line_buffer s" "line_type s" ?s3]
      by (simp add: unlock_state)
  qed
qed


subsection \<open>A locked run against the words of the spec\<close>

lemma Print_unlocked_emits: "\<not> console_locked s \<Longrightarrow> emitted s (Print ext t k s) \<noteq> []"
  by (simp add: emitted_def Print_def Let_def split_def printf_def fflush_def
        GetReformatMode_fields GetStatusPrintMode_fields)

lemma PrintWithoutNewLine_console_locked:
  "console_locked (PrintWithoutNewLine t s) = console_locked s"
  by (simp add: PrintWithoutNewLine_def flush_line_buffer_def PrintOrBuffer_def fwrite_def Let_def)








lemma run_pending_calls:
  "run pending_calls (LinePrinter plain_ext FULL None None []) =
     \<lparr>have_blank_line = False, console_locked = True,
      smart_terminal = False, supports_color = False,
      line_buffer = ''a'', line_type = FULL, output_buffer = ''x'',
      reformat_mode_static = Some none, status_print_mode_static = None,
      stdout = [Wr (CR # ESC # ''[K'' @ [CR]), Fl]\<rparr>"
  by (simp add: pending_calls_def printer_defs sample_defs)

section \<open>The raw operations\<close>

text \<open>
  C4. \<open>PrintWithoutNewLine\<close>, for every text and every state. A pending line of a
  locked console moves into the output buffer, followed by a newline, and is
  cleared. A non-empty text then goes to the stream as one raw write when the
  console is unlocked and to the end of the output buffer when it is locked.
  Afterwards the blank-line flag holds exactly when the text is non-empty and
  begins with a newline, or is empty and the flag held before. Nothing else
  changes.
\<close>

theorem PrintWithoutNewLine_spec:
  "PrintWithoutNewLine t s =
     s\<lparr>output_buffer :=
          (if console_locked s
           then output_buffer s @ (if line_buffer s \<noteq> [] then line_buffer s @ [NL] else []) @ t
           else output_buffer s),
       line_buffer := (if console_locked s then [] else line_buffer s),
       stdout := (if \<not> console_locked s \<and> t \<noteq> [] then stdout s @ [Wr t] else stdout s),
       have_blank_line := ((t \<noteq> [] \<and> hd t = NL) \<or> (t = [] \<and> have_blank_line s))\<rparr>"
  by (simp add: PrintWithoutNewLine_def flush_line_buffer_def PrintOrBuffer_def
        fwrite_def Let_def)

theorem PrintWithoutNewLine_spec_witness:
  "PrintWithoutNewLine ''out'' locked_pending =
     locked_pending\<lparr>output_buffer := ''x[1/2] a'' @ [NL] @ ''out'', line_buffer := [],
                    have_blank_line := False\<rparr>"
  using PrintWithoutNewLine_spec [of "''out''" locked_pending]
  by (simp add: locked_pending_def NL_def)

text \<open>
  C5. \<open>PrintOnNewLine\<close>, for every text and every state. A pending line of a locked
  console moves into the output buffer, followed by a newline, and is cleared.
  If the blank-line flag is false, one newline is emitted; a non-empty text is
  then written raw; both go to the output buffer when the console is locked.
  Afterwards the flag holds exactly when the text is empty or ends with a
  newline. Nothing else changes.
\<close>

theorem PrintOnNewLine_spec:
  "PrintOnNewLine t s =
     s\<lparr>output_buffer :=
          (if console_locked s
           then output_buffer s @ (if line_buffer s \<noteq> [] then line_buffer s @ [NL] else [])
                  @ (if \<not> have_blank_line s then [NL] else []) @ t
           else output_buffer s),
       line_buffer := (if console_locked s then [] else line_buffer s),
       stdout :=
          (if console_locked s then stdout s
           else stdout s @ (if \<not> have_blank_line s then [Wr [NL]] else [])
                  @ (if t \<noteq> [] then [Wr t] else [])),
       have_blank_line := (t = [] \<or> last t = NL)\<rparr>"
  by (simp add: PrintOnNewLine_def flush_line_buffer_def PrintOrBuffer_def
        fwrite_def Let_def)

theorem PrintOnNewLine_spec_witness:
  "PrintOnNewLine ''out'' locked_pending =
     locked_pending\<lparr>output_buffer := ''x[1/2] a'' @ [NL] @ [NL] @ ''out'', line_buffer := [],
                    have_blank_line := False\<rparr>"
  using PrintOnNewLine_spec [of "''out''" locked_pending]
  by (simp add: locked_pending_def NL_def)

section \<open>The buffers and the lock\<close>

text \<open>
  C2. In every state reached from a fresh printer by calls of \<open>Print\<close>,
  \<open>PrintWithoutNewLine\<close>, \<open>PrintOnNewLine\<close>, \<open>PrintOrBuffer\<close> and
  \<open>SetConsoleLocked\<close>, in whatever surroundings, the pending line and the output
  buffer are empty unless the console is locked. After \<open>SetConsoleLocked(false)\<close>
  both are empty and the console is unlocked. When that call unlocks, both are
  drained to the stream: it receives the output buffer as one write, if there is
  any, then what \<open>Print\<close> emits for the pending line, if there is one, which is
  never nothing, and no other call.
\<close>

theorem buffers_nonempty_only_while_locked:
  assumes "s = run cs (LinePrinter ext lt0 rm0 sm0 out0)"
  shows "(\<not> console_locked s \<longrightarrow> line_buffer s = [] \<and> output_buffer s = []) \<and>
         line_buffer (SetConsoleLocked ext' False s) = [] \<and>
         output_buffer (SetConsoleLocked ext' False s) = [] \<and>
         \<not> console_locked (SetConsoleLocked ext' False s) \<and>
         (console_locked s \<longrightarrow>
            prefix (stdout s @ (if output_buffer s = [] then [] else [Wr (output_buffer s)]))
              (stdout (SetConsoleLocked ext' False s))) \<and>
         (console_locked s \<longrightarrow>
            stdout (SetConsoleLocked ext' False s) =
              stdout s @ (if output_buffer s = [] then [] else [Wr (output_buffer s)]) @
              (if line_buffer s = [] then []
               else emitted (PrintWithoutNewLine (output_buffer s) (s\<lparr>console_locked := False\<rparr>))
                      (Print ext' (line_buffer s) (line_type s)
                         (PrintWithoutNewLine (output_buffer s) (s\<lparr>console_locked := False\<rparr>))))) \<and>
         (console_locked s \<longrightarrow> line_buffer s \<noteq> [] \<longrightarrow>
            emitted (PrintWithoutNewLine (output_buffer s) (s\<lparr>console_locked := False\<rparr>))
              (Print ext' (line_buffer s) (line_type s)
                 (PrintWithoutNewLine (output_buffer s) (s\<lparr>console_locked := False\<rparr>))) \<noteq> [])"
proof -
  have idle: "buffers_idle s"
    unfolding assms by (rule buffers_idle_run [OF buffers_idle_LinePrinter])
  then have "\<not> console_locked s \<longrightarrow> line_buffer s = [] \<and> output_buffer s = []"
    by (simp add: buffers_idle_def)
  moreover from idle have "line_buffer (SetConsoleLocked ext' False s) = []"
    "output_buffer (SetConsoleLocked ext' False s) = []"
    by (simp_all add: SetConsoleLocked_buffers buffers_idle_def)
  moreover have "\<not> console_locked (SetConsoleLocked ext' False s)"
    by (simp add: SetConsoleLocked_buffers)
  moreover have "console_locked s \<longrightarrow>
            prefix (stdout s @ (if output_buffer s = [] then [] else [Wr (output_buffer s)]))
              (stdout (SetConsoleLocked ext' False s))"
    by (simp add: unlock_stdout_prefix)
  moreover have "console_locked s \<longrightarrow>
            stdout (SetConsoleLocked ext' False s) =
              stdout s @ (if output_buffer s = [] then [] else [Wr (output_buffer s)]) @
              (if line_buffer s = [] then []
               else emitted (PrintWithoutNewLine (output_buffer s) (s\<lparr>console_locked := False\<rparr>))
                      (Print ext' (line_buffer s) (line_type s)
                         (PrintWithoutNewLine (output_buffer s) (s\<lparr>console_locked := False\<rparr>))))"
    using unlock_stdout [of s ext'] by blast
  moreover have "emitted (PrintWithoutNewLine (output_buffer s) (s\<lparr>console_locked := False\<rparr>))
              (Print ext' (line_buffer s) (line_type s)
                 (PrintWithoutNewLine (output_buffer s) (s\<lparr>console_locked := False\<rparr>))) \<noteq> []"
    by (rule Print_unlocked_emits) (simp add: PrintWithoutNewLine_console_locked)
  ultimately show ?thesis
    by blast
qed

theorem buffers_nonempty_only_while_locked_witness:
  "console_locked (run locked_calls (LinePrinter plain_ext FULL None None [])) \<and>
   output_buffer (run locked_calls (LinePrinter plain_ext FULL None None [])) = ''a'' @ [NL] @ ''x'' \<and>
   prefix [Wr (CR # ESC # ''[K'' @ [CR]), Fl, Wr (''a'' @ [NL] @ ''x'')]
     (stdout (SetConsoleLocked plain_ext False
                (run locked_calls (LinePrinter plain_ext FULL None None [])))) \<and>
   \<not> console_locked (run (locked_calls @ [(plain_ext, CallSetConsoleLocked False)])
                       (LinePrinter plain_ext FULL None None [])) \<and>
   line_buffer (run (locked_calls @ [(plain_ext, CallSetConsoleLocked False)])
                  (LinePrinter plain_ext FULL None None [])) = [] \<and>
   output_buffer (run (locked_calls @ [(plain_ext, CallSetConsoleLocked False)])
                    (LinePrinter plain_ext FULL None None [])) = [] \<and>
   console_locked (run pending_calls (LinePrinter plain_ext FULL None None [])) \<and>
   line_buffer (run pending_calls (LinePrinter plain_ext FULL None None [])) = ''a'' \<and>
   output_buffer (run pending_calls (LinePrinter plain_ext FULL None None [])) = ''x'' \<and>
   stdout (SetConsoleLocked plain_ext False
             (run pending_calls (LinePrinter plain_ext FULL None None []))) =
     [Wr (CR # ESC # ''[K'' @ [CR]), Fl, Wr ''x'', Wr (''a'' @ [NL])] \<and>
   line_buffer (SetConsoleLocked plain_ext False
                  (run pending_calls (LinePrinter plain_ext FULL None None []))) = [] \<and>
   output_buffer (SetConsoleLocked plain_ext False
                    (run pending_calls (LinePrinter plain_ext FULL None None []))) = []"
proof -
  note A = buffers_nonempty_only_while_locked
             [OF refl, of locked_calls plain_ext FULL None None "[]" plain_ext]
  note B = buffers_nonempty_only_while_locked
             [OF refl, of "locked_calls @ [(plain_ext, CallSetConsoleLocked False)]"
                plain_ext FULL None None "[]" plain_ext]
  note C = buffers_nonempty_only_while_locked
             [OF refl, of pending_calls plain_ext FULL None None "[]" plain_ext]
  have a: "console_locked (run locked_calls (LinePrinter plain_ext FULL None None [])) \<and>
   output_buffer (run locked_calls (LinePrinter plain_ext FULL None None [])) = ''a'' @ [NL] @ ''x'' \<and>
   prefix [Wr (CR # ESC # ''[K'' @ [CR]), Fl, Wr (''a'' @ [NL] @ ''x'')]
     (stdout (SetConsoleLocked plain_ext False
                (run locked_calls (LinePrinter plain_ext FULL None None []))))"
    using A by (simp add: run_locked_calls)
  have b: "\<not> console_locked (run (locked_calls @ [(plain_ext, CallSetConsoleLocked False)])
                       (LinePrinter plain_ext FULL None None [])) \<and>
   line_buffer (run (locked_calls @ [(plain_ext, CallSetConsoleLocked False)])
                  (LinePrinter plain_ext FULL None None [])) = [] \<and>
   output_buffer (run (locked_calls @ [(plain_ext, CallSetConsoleLocked False)])
                    (LinePrinter plain_ext FULL None None [])) = []"
    using B by (simp add: run_append SetConsoleLocked_buffers)
  have l: "console_locked (run pending_calls (LinePrinter plain_ext FULL None None []))"
    by (simp add: run_pending_calls)
  have e: "emitted
             (PrintWithoutNewLine ''x''
                ((run pending_calls (LinePrinter plain_ext FULL None None []))
                   \<lparr>console_locked := False\<rparr>))
             (Print plain_ext ''a'' FULL
                (PrintWithoutNewLine ''x''
                   ((run pending_calls (LinePrinter plain_ext FULL None None []))
                      \<lparr>console_locked := False\<rparr>))) = [Wr (''a'' @ [NL])]"
    unfolding run_pending_calls by (simp add: emitted_def printer_defs sample_defs)
  have c: "stdout (SetConsoleLocked plain_ext False
             (run pending_calls (LinePrinter plain_ext FULL None None []))) =
     [Wr (CR # ESC # ''[K'' @ [CR]), Fl, Wr ''x'', Wr (''a'' @ [NL])] \<and>
   line_buffer (SetConsoleLocked plain_ext False
                  (run pending_calls (LinePrinter plain_ext FULL None None []))) = [] \<and>
   output_buffer (SetConsoleLocked plain_ext False
                    (run pending_calls (LinePrinter plain_ext FULL None None []))) = []"
  proof -
    have "stdout (SetConsoleLocked plain_ext False
             (run pending_calls (LinePrinter plain_ext FULL None None []))) =
      stdout (run pending_calls (LinePrinter plain_ext FULL None None [])) @
      [Wr ''x''] @ [Wr (''a'' @ [NL])]"
      using C l e by (simp add: run_pending_calls)
    then show ?thesis
      using C by (simp add: run_pending_calls)
  qed
  show ?thesis
    using a b c by (simp add: run_pending_calls)
qed

text \<open>
  C6. \<open>SetConsoleLocked(b)\<close> with \<open>b\<close> the current lock state changes nothing.
  From every unlocked state of a run, locking and at once unlocking gives the
  state before locking again, with nothing added to the stream but the
  clear-line sequence and its flush.
\<close>

theorem lock_unlock_roundtrip:
  "(b = console_locked p \<longrightarrow> SetConsoleLocked ext b p = p) \<and>
   (s = run cs (LinePrinter e lt rm sm out) \<longrightarrow> \<not> console_locked s \<longrightarrow>
      SetConsoleLocked ext'' False (SetConsoleLocked ext' True s) =
        s\<lparr>stdout := stdout s @ [Wr (CR # ESC # ''[K'' @ [CR]), Fl]\<rparr>)"
proof (intro conjI impI)
  show "SetConsoleLocked ext b p = p" if "b = console_locked p"
    using that by (rule SetConsoleLocked_same)
next
  assume s: "s = run cs (LinePrinter e lt rm sm out)" and u: "\<not> console_locked s"
  have "buffers_idle s"
    unfolding s by (rule buffers_idle_run [OF buffers_idle_LinePrinter])
  with u have e: "line_buffer s = []" "output_buffer s = []"
    by (simp_all add: buffers_idle_def)
  show "SetConsoleLocked ext'' False (SetConsoleLocked ext' True s) =
        s\<lparr>stdout := stdout s @ [Wr (CR # ESC # ''[K'' @ [CR]), Fl]\<rparr>"
    using u e
    by (cases s) (simp add: lock_state unlock_state PrintWithoutNewLine_def flush_line_buffer_def Let_def)
qed

theorem lock_unlock_roundtrip_witness:
  "SetConsoleLocked plain_ext True locked_pending = locked_pending \<and>
   SetConsoleLocked tty_ext False
       (SetConsoleLocked tty_ext True (run status_calls (LinePrinter tty_ext FULL None None []))) =
     (run status_calls (LinePrinter tty_ext FULL None None []))
       \<lparr>stdout := [Wr [CR], Wr ''[1/2] a'', Wr (ESC # ''[K''), Fl,
                   Wr (CR # ESC # ''[K'' @ [CR]), Fl]\<rparr>"
  using lock_unlock_roundtrip
          [where b = True and p = locked_pending and ext = plain_ext
             and s = "run status_calls (LinePrinter tty_ext FULL None None [])"
             and cs = status_calls and e = tty_ext and lt = FULL and rm = None and sm = None
             and out = "[]" and ext' = tty_ext and ext'' = tty_ext]
  by (simp add: run_status_calls locked_pending_def)

text \<open>
  C7. From every unlocked state of a run, \<open>SetConsoleLocked(true)\<close>,
  \<open>PrintWithoutNewLine("child output")\<close>, \<open>SetConsoleLocked(false)\<close>: the lock
  writes and flushes the clear-line sequence, the write in between reaches only
  the output buffer, and the unlock writes exactly \<open>child output\<close>, once; the final
  state is the first one with these writes on the stream and the blank-line flag
  false.
\<close>

theorem child_output_scenario:
  assumes "s = run cs (LinePrinter e lt rm sm out)" and "\<not> console_locked s"
  shows "stdout (SetConsoleLocked ext True s) = stdout s @ [Wr (CR # ESC # ''[K'' @ [CR]), Fl] \<and>
         stdout (PrintWithoutNewLine ''child output'' (SetConsoleLocked ext True s)) =
           stdout (SetConsoleLocked ext True s) \<and>
         output_buffer (PrintWithoutNewLine ''child output'' (SetConsoleLocked ext True s)) =
           ''child output'' \<and>
         SetConsoleLocked ext' False
             (PrintWithoutNewLine ''child output'' (SetConsoleLocked ext True s)) =
           s\<lparr>stdout := stdout s @ [Wr (CR # ESC # ''[K'' @ [CR]), Fl, Wr ''child output''],
              have_blank_line := False\<rparr>"
proof -
  have "buffers_idle s"
    unfolding assms(1) by (rule buffers_idle_run [OF buffers_idle_LinePrinter])
  with assms(2) have e: "line_buffer s = []" "output_buffer s = []"
    by (simp_all add: buffers_idle_def)
  show ?thesis
    using assms(2) e
    by (cases s)
      (simp add: lock_state unlock_state PrintWithoutNewLine_def flush_line_buffer_def
         PrintOrBuffer_def fwrite_def Let_def NL_def)
qed

theorem child_output_scenario_witness:
  "stdout (SetConsoleLocked tty_ext False
             (PrintWithoutNewLine ''child output''
                (SetConsoleLocked tty_ext True
                   (run status_calls (LinePrinter tty_ext FULL None None []))))) =
     [Wr [CR], Wr ''[1/2] a'', Wr (ESC # ''[K''), Fl,
      Wr (CR # ESC # ''[K'' @ [CR]), Fl, Wr ''child output'']"
  using child_output_scenario
          [OF refl, where cs = status_calls and e = tty_ext and lt = FULL and rm = None
             and sm = None and out = "[]" and ext = tty_ext and ext' = tty_ext]
  by (simp add: run_status_calls)


section \<open>The formatter in \<open>Print\<close>\<close>

text \<open>
  C8. When the reformat mode is pretty, \<open>Print\<close> of a text is \<open>Print\<close> of
  \<open>CustomFormat\<close> of the text with the reformatting off: a locked console keeps
  the rewritten text as pending line, and on the eliding path \<open>ElideMiddle\<close> is
  applied to the rewritten text. \<open>CustomFormat\<close> applies its twelve rules in
  their order, each to the result of the one before. On
  \<open>Building CXX obj foo.cpp.o\<close> the third rule gives the coloured
  \<open>building c++ obj foo.cpp.o\<close>, the eleventh then cuts \<open>.cpp.o\<close> to \<open>.cpp\<close>,
  and the result, colour sequences apart, reads \<open>building c++ obj foo.cpp\<close>.
\<close>

theorem pretty_Print_formats_first:
  assumes "fst (GetReformatMode ext s) = pretty"
  shows "Print ext t k s =
           (Print ext (CustomFormat t) k (s\<lparr>reformat_mode_static := Some none\<rparr>))
             \<lparr>reformat_mode_static := Some pretty\<rparr> \<and>
         (console_locked s \<longrightarrow> line_buffer (Print ext t k s) = CustomFormat t) \<and>
         (\<not> console_locked s \<longrightarrow> smart_terminal s \<longrightarrow>
          fst (GetStatusPrintMode ext (snd (GetReformatMode ext s))) \<noteq> multiline \<longrightarrow>
          TIOCGWINSZ ext = Some w \<longrightarrow> w \<noteq> 0 \<longrightarrow>
            emitted s (Print ext t ELIDE s) =
              [Wr [CR], Wr (c_str (ElideMiddle ext (CustomFormat t) w)), Wr (ESC # ''[K''), Fl]) \<and>
         CustomFormat t = foldl (\<lambda>res rule. regex_replace res (fst rule) (snd rule)) t rules \<and>
         regex_replace ''Building CXX obj foo.cpp.o'' (fst rule_building_cxx) (snd rule_building_cxx) =
           ESC # ''[32mbuilding c++ obj '' @ ESC # ''[34mfoo.cpp.o'' @ ESC # ''[0m'' \<and>
         CustomFormat ''Building CXX obj foo.cpp.o'' =
           ESC # ''[32mbuilding c++ obj '' @ ESC # ''[34mfoo.cpp'' @ ESC # ''[0m'' \<and>
         shown False (CustomFormat ''Building CXX obj foo.cpp.o'') = ''building c++ obj foo.cpp''"
proof -
  have "Print ext t k s =
           (Print ext (CustomFormat t) k (s\<lparr>reformat_mode_static := Some none\<rparr>))
             \<lparr>reformat_mode_static := Some pretty\<rparr>"
    using assms by (rule Print_pretty_is_Print_of_CustomFormat)
  moreover have "line_buffer (Print ext t k s) = CustomFormat t" if "console_locked s"
    using that assms by (simp add: Print_locked)
  moreover have "emitted s (Print ext t ELIDE s) =
              [Wr [CR], Wr (c_str (ElideMiddle ext (CustomFormat t) w)), Wr (ESC # ''[K''), Fl]"
    if "\<not> console_locked s" "smart_terminal s"
      "fst (GetStatusPrintMode ext (snd (GetReformatMode ext s))) \<noteq> multiline"
      "TIOCGWINSZ ext = Some w" "w \<noteq> 0"
    using Print_elide [OF that, of t] assms by simp
  moreover note CustomFormat_rules [of t] building_cxx_example CustomFormat_example
  moreover have "shown False (CustomFormat ''Building CXX obj foo.cpp.o'') = ''building c++ obj foo.cpp''"
    unfolding CustomFormat_example by (rule shown_example)
  ultimately show ?thesis
    by blast
qed

theorem pretty_Print_formats_first_witness:
  "fst (GetReformatMode pretty_ext pretty_start) = pretty \<and>
   stdout (Print pretty_ext ''Building CXX obj foo.cpp.o'' ELIDE pretty_start) =
     [Wr [CR], Wr (ESC # ''[32mbuilding c++ obj '' @ ESC # ''[34mfoo.cpp'' @ ESC # ''[0m''),
      Wr (ESC # ''[K''), Fl] \<and>
   line_buffer (Print pretty_ext ''Building CXX obj foo.cpp.o'' ELIDE
                  (SetConsoleLocked pretty_ext True pretty_start)) =
     ESC # ''[32mbuilding c++ obj '' @ ESC # ''[34mfoo.cpp'' @ ESC # ''[0m''"
proof -
  have m: "fst (GetReformatMode pretty_ext pretty_start) = pretty"
    by (simp add: GetReformatMode_def pretty_start_eq pretty_ext_def)
  have m': "fst (GetReformatMode pretty_ext (SetConsoleLocked pretty_ext True pretty_start)) = pretty"
    by (simp add: GetReformatMode_def pretty_start_eq pretty_ext_def SetConsoleLocked_def
          printf_def fflush_def)
  have l: "console_locked (SetConsoleLocked pretty_ext True pretty_start)"
    by (simp add: SetConsoleLocked_buffers)
  have u: "\<not> console_locked pretty_start" "smart_terminal pretty_start" "stdout pretty_start = []"
    by (simp_all add: pretty_start_eq)
  have sm: "fst (GetStatusPrintMode pretty_ext (snd (GetReformatMode pretty_ext pretty_start))) \<noteq> multiline"
    by (simp add: GetReformatMode_def GetStatusPrintMode_def pretty_start_eq pretty_ext_def)
  have w: "TIOCGWINSZ pretty_ext = Some 80" "ElideMiddle pretty_ext = (\<lambda>t w. t)"
    by (simp_all add: pretty_ext_def)
  note T = pretty_Print_formats_first
              [OF m, where t = "''Building CXX obj foo.cpp.o''" and k = ELIDE and w = 80]
  note T' = pretty_Print_formats_first
              [OF m', where t = "''Building CXX obj foo.cpp.o''" and k = ELIDE and w = 80]
  have cf: "CustomFormat ''Building CXX obj foo.cpp.o'' =
              ESC # ''[32mbuilding c++ obj '' @ ESC # ''[34mfoo.cpp'' @ ESC # ''[0m''"
    using T by (elim conjE)
  have e: "emitted pretty_start (Print pretty_ext ''Building CXX obj foo.cpp.o'' ELIDE pretty_start) =
             [Wr [CR], Wr (c_str (ElideMiddle pretty_ext (CustomFormat ''Building CXX obj foo.cpp.o'') 80)),
              Wr (ESC # ''[K''), Fl]"
    using T u(1,2) sm w(1) by (elim conjE) simp
  have lb: "line_buffer (Print pretty_ext ''Building CXX obj foo.cpp.o'' ELIDE
                  (SetConsoleLocked pretty_ext True pretty_start)) =
              CustomFormat ''Building CXX obj foo.cpp.o''"
    using T' l by (elim conjE) simp
  show ?thesis
    using m stdout_Print [of pretty_ext "''Building CXX obj foo.cpp.o''" ELIDE pretty_start]
    by (simp add: e lb cf w(2) u(3) c_str_def ESC_def NUL_def)
qed

section \<open>The modes\<close>

text \<open>
  C9, as stated, fails on a text with a null byte: in multiline mode \<open>Print\<close> hands
  \<open>c_str()\<close> to \<open>printf("%s\n")\<close>, which stops at the first null byte, so of the
  text \<open>a\<close>, null, \<open>b\<close> only \<open>a\<close> and the newline are written.
\<close>

theorem multiline_Print_NUL_counterexample:
  "\<not> console_locked multiline_start \<and>
   fst (GetStatusPrintMode multiline_ext multiline_start) = multiline \<and>
   stdout (Print multiline_ext (''a'' @ [NUL] @ ''b'') FULL multiline_start) = [Wr (''a'' @ [NL])] \<and>
   bytes_of (stdout (Print multiline_ext (''a'' @ [NUL] @ ''b'') FULL multiline_start)) \<noteq>
     (''a'' @ [NUL] @ ''b'') @ [NL]"
  by (simp add: multiline_start_eq multiline_ext_def Print_def GetReformatMode_def
        GetStatusPrintMode_def printf_def c_str_def NUL_def NL_def Let_def)

text \<open>
  C9, amended. A mode not yet computed is computed from the environment: pretty
  exactly for the value \<open>pretty\<close>, else none; multiline exactly for \<open>multiline\<close>,
  scrolling exactly for \<open>scrolling\<close>, else singleline. The call stores what it
  computed, and a stored mode is the answer after every later run of calls, in
  whatever surroundings. In multiline mode a \<open>Print\<close> on an unlocked console does
  one thing to the printer: it writes the text (rewritten first when the mode is
  pretty) up to its first null byte, all of it when it has none, followed by a
  newline.
\<close>

theorem modes_cached_and_multiline_Print:
  "(reformat_mode_static s = None \<longrightarrow>
      fst (GetReformatMode ext s) =
        (if getenv ext ''DSICILIA_NINJA_REFORMAT_MODE'' = Some ''pretty'' then pretty else none)) \<and>
   (status_print_mode_static s = None \<longrightarrow>
      fst (GetStatusPrintMode ext s) =
        (if getenv ext ''DSICILIA_NINJA_STATUS_PRINT_MODE'' = Some ''multiline'' then multiline
         else if getenv ext ''DSICILIA_NINJA_STATUS_PRINT_MODE'' = Some ''scrolling'' then scrolling
         else singleline)) \<and>
   reformat_mode_static (snd (GetReformatMode ext s)) = Some (fst (GetReformatMode ext s)) \<and>
   status_print_mode_static (snd (GetStatusPrintMode ext s)) = Some (fst (GetStatusPrintMode ext s)) \<and>
   (reformat_mode_static s = Some rm \<longrightarrow>
      reformat_mode_static (run cs s) = Some rm \<and> fst (GetReformatMode ext' (run cs s)) = rm) \<and>
   (status_print_mode_static s = Some sm \<longrightarrow>
      status_print_mode_static (run cs s) = Some sm \<and> fst (GetStatusPrintMode ext' (run cs s)) = sm) \<and>
   (\<not> console_locked s \<longrightarrow>
    fst (GetStatusPrintMode ext (snd (GetReformatMode ext s))) = multiline \<longrightarrow>
      Print ext t k s =
        (snd (GetStatusPrintMode ext (snd (GetReformatMode ext s))))
          \<lparr>stdout := stdout s @
             [Wr (c_str (if fst (GetReformatMode ext s) = pretty then CustomFormat t else t)
                    @ [NL])]\<rparr>) \<and>
   (NUL \<notin> set t' \<longrightarrow> c_str t' = t')"
proof (intro conjI impI)
  show "Print ext t k s =
        (snd (GetStatusPrintMode ext (snd (GetReformatMode ext s))))
          \<lparr>stdout := stdout s @
             [Wr (c_str (if fst (GetReformatMode ext s) = pretty then CustomFormat t else t)
                    @ [NL])]\<rparr>"
    if "\<not> console_locked s" "fst (GetStatusPrintMode ext (snd (GetReformatMode ext s))) = multiline"
    using that by (rule Print_multiline)
qed (simp_all add: reformat_mode_of_env status_print_mode_of_env statics_of_Get
       run_keeps_reformat_mode run_keeps_status_print_mode fst_Get_Some c_str_no_NUL)

theorem modes_cached_and_multiline_Print_witness:
  "fst (GetReformatMode multiline_ext multiline_start) = none \<and>
   fst (GetStatusPrintMode multiline_ext multiline_start) = multiline \<and>
   fst (GetStatusPrintMode plain_ext
          (run [(plain_ext, CallPrint ''[2/2] b'' ELIDE)]
             (snd (GetStatusPrintMode multiline_ext multiline_start)))) = multiline \<and>
   stdout (Print multiline_ext ''[1/2] a'' ELIDE multiline_start) = [Wr (''[1/2] a'' @ [NL])]"
proof -
  note T = modes_cached_and_multiline_Print
             [where s = multiline_start and ext = multiline_ext and t = "''[1/2] a''"
                and t' = "''[1/2] a''" and k = ELIDE]
  note T' = modes_cached_and_multiline_Print
             [where s = "snd (GetStatusPrintMode multiline_ext multiline_start)"
                and sm = multiline and cs = "[(plain_ext, CallPrint ''[2/2] b'' ELIDE)]"
                and ext' = plain_ext]
  have n: "reformat_mode_static multiline_start = None"
    "status_print_mode_static multiline_start = None" "\<not> console_locked multiline_start"
    "stdout multiline_start = []"
    by (simp_all add: multiline_start_eq)
  have rm: "fst (GetReformatMode multiline_ext multiline_start) = none"
    using T n(1) by (simp add: multiline_ext_def)
  have sm: "fst (GetStatusPrintMode multiline_ext multiline_start) = multiline"
    using T n(2) by (simp add: multiline_ext_def)
  have sm': "fst (GetStatusPrintMode multiline_ext (snd (GetReformatMode multiline_ext multiline_start)))
               = multiline"
    by (simp add: multiline_start_eq GetReformatMode_def GetStatusPrintMode_def multiline_ext_def)
  have later: "fst (GetStatusPrintMode plain_ext
          (run [(plain_ext, CallPrint ''[2/2] b'' ELIDE)]
             (snd (GetStatusPrintMode multiline_ext multiline_start)))) = multiline"
    using T' T sm by simp
  have c: "c_str ''[1/2] a'' = ''[1/2] a''"
    using T by (simp add: NUL_def)
  have "stdout (Print multiline_ext ''[1/2] a'' ELIDE multiline_start) = [Wr (''[1/2] a'' @ [NL])]"
    using T n(3,4) sm' rm c by (simp add: GetStatusPrintMode_fields)
  with rm sm later show ?thesis
    by simp
qed

section \<open>The pending line\<close>

text \<open>
  C10, as stated, fails when the last locked \<open>Print\<close> has an empty text: the pair
  kept is the empty text and its kind, and the unlock, which tests the pending
  line for emptiness, renders nothing, where \<open>Print\<close> of that pair writes a
  newline.
\<close>

theorem empty_pending_line_counterexample:
  "console_locked (Print plain_ext [] FULL (Print plain_ext ''a'' FULL
                     (SetConsoleLocked plain_ext True plain_start))) \<and>
   line_buffer (Print plain_ext [] FULL (Print plain_ext ''a'' FULL
                  (SetConsoleLocked plain_ext True plain_start))) = [] \<and>
   line_type (Print plain_ext [] FULL (Print plain_ext ''a'' FULL
                (SetConsoleLocked plain_ext True plain_start))) = FULL \<and>
   stdout (SetConsoleLocked plain_ext False
             (Print plain_ext [] FULL (Print plain_ext ''a'' FULL
                (SetConsoleLocked plain_ext True plain_start)))) =
     [Wr (CR # ESC # ''[K'' @ [CR]), Fl] \<and>
   emitted plain_start (Print plain_ext [] FULL plain_start) = [Wr [NL]]"
  by (simp add: plain_start_eq plain_ext_def emitted_def printer_defs)

text \<open>
  C10, amended. On a locked console a run of one or more \<open>Print\<close> calls leaves
  the state that its last call alone leaves: the pending line is the last text
  (rewritten when the mode is pretty) with the last kind, and nothing reaches the
  stream or the output buffer. The unlock writes the output buffer and then, if
  the pending line is not empty, renders it by a call of \<open>Print\<close>; an empty
  pending line is not rendered.
\<close>

theorem locked_Print_last_wins:
  assumes "console_locked s"
  shows "(ps \<noteq> [] \<longrightarrow>
            run (map (\<lambda>p. (ext, CallPrint (fst p) (snd p))) ps) s =
              Print ext (fst (last ps)) (snd (last ps)) s) \<and>
         Print ext t k s =
           (snd (GetReformatMode ext s))
             \<lparr>line_buffer := (if fst (GetReformatMode ext s) = pretty then CustomFormat t else t),
              line_type := k\<rparr> \<and>
         stdout (Print ext t k s) = stdout s \<and>
         output_buffer (Print ext t k s) = output_buffer s \<and>
         SetConsoleLocked ext' False s =
           (if line_buffer s \<noteq> []
            then Print ext' (line_buffer s) (line_type s)
                   (PrintWithoutNewLine (output_buffer s) (s\<lparr>console_locked := False\<rparr>))
            else PrintWithoutNewLine (output_buffer s) (s\<lparr>console_locked := False\<rparr>))
           \<lparr>output_buffer := [], line_buffer := []\<rparr>"
  using assms
  by (simp add: run_Prints_locked Print_locked unlock_state GetReformatMode_fields)

theorem locked_Print_last_wins_witness:
  "console_locked (SetConsoleLocked plain_ext True plain_start) \<and>
   run [(plain_ext, CallPrint ''[1/3] a'' ELIDE), (plain_ext, CallPrint ''[2/3] b'' ELIDE),
        (plain_ext, CallPrint ''[3/3] c'' FULL)] (SetConsoleLocked plain_ext True plain_start) =
     Print plain_ext ''[3/3] c'' FULL (SetConsoleLocked plain_ext True plain_start) \<and>
   line_buffer (Print plain_ext ''[3/3] c'' FULL (SetConsoleLocked plain_ext True plain_start)) =
     ''[3/3] c'' \<and>
   stdout (SetConsoleLocked plain_ext False
             (Print plain_ext ''[3/3] c'' FULL (SetConsoleLocked plain_ext True plain_start))) =
     [Wr (CR # ESC # ''[K'' @ [CR]), Fl, Wr (''[3/3] c'' @ [NL])]"
proof -
  have l: "console_locked (SetConsoleLocked plain_ext True plain_start)"
    by (simp add: SetConsoleLocked_buffers)
  have l': "console_locked (Print plain_ext ''[3/3] c'' FULL (SetConsoleLocked plain_ext True plain_start))"
    using l by (simp add: Print_console_locked)
  note T = locked_Print_last_wins
             [OF l, where ext = plain_ext and t = "''[3/3] c''" and k = FULL
                and ps = "[(''[1/3] a'', ELIDE), (''[2/3] b'', ELIDE), (''[3/3] c'', FULL)]"]
  note T' = locked_Print_last_wins [OF l', where ext' = plain_ext]
  have m: "fst (GetReformatMode plain_ext (SetConsoleLocked plain_ext True plain_start)) = none"
    by (simp add: plain_start_eq plain_ext_def printer_defs)
  have r: "run [(plain_ext, CallPrint ''[1/3] a'' ELIDE), (plain_ext, CallPrint ''[2/3] b'' ELIDE),
        (plain_ext, CallPrint ''[3/3] c'' FULL)] (SetConsoleLocked plain_ext True plain_start) =
     Print plain_ext ''[3/3] c'' FULL (SetConsoleLocked plain_ext True plain_start)"
    using T by simp
  have b: "line_buffer (Print plain_ext ''[3/3] c'' FULL (SetConsoleLocked plain_ext True plain_start)) =
     ''[3/3] c''"
    using T m by simp
  have "SetConsoleLocked plain_ext False
             (Print plain_ext ''[3/3] c'' FULL (SetConsoleLocked plain_ext True plain_start)) =
          (Print plain_ext ''[3/3] c'' FULL
            (PrintWithoutNewLine []
               ((Print plain_ext ''[3/3] c'' FULL (SetConsoleLocked plain_ext True plain_start))
                  \<lparr>console_locked := False\<rparr>)))\<lparr>output_buffer := [], line_buffer := []\<rparr>"
    using T' T m by (simp add: SetConsoleLocked_def plain_start_eq printf_def fflush_def
        GetReformatMode_def plain_ext_def)
  then have "stdout (SetConsoleLocked plain_ext False
             (Print plain_ext ''[3/3] c'' FULL (SetConsoleLocked plain_ext True plain_start))) =
     [Wr (CR # ESC # ''[K'' @ [CR]), Fl, Wr (''[3/3] c'' @ [NL])]"
    by (simp add: plain_start_eq printer_defs sample_defs)
  with l r b show ?thesis
    by simp
qed

section \<open>Writes while the console is locked\<close>




section \<open>The blank-line flag\<close>

text \<open>
  C3 does not hold of the code. On a smart terminal in singleline mode an
  eliding \<open>Print\<close> clears the flag; a following \<open>Print\<close> of a full line ends its
  output with a newline, so the cursor is at the start of an empty line, but no
  newline path of \<open>Print\<close> assigns the flag, which stays false. The next
  \<open>PrintOnNewLine\<close> therefore starts with a newline of its own and leaves an empty
  line on the terminal.
\<close>

theorem Print_newline_keeps_flag_false:
  "stdout (Print tty_ext ''b'' FULL (Print tty_ext ''a'' ELIDE tty_start)) =
     [Wr [CR], Wr ''a'', Wr (ESC # ''[K''), Fl, Wr [CR], Wr (''b'' @ [NL])] \<and>
   have_blank_line (Print tty_ext ''b'' FULL (Print tty_ext ''a'' ELIDE tty_start)) = False \<and>
   emitted (Print tty_ext ''b'' FULL (Print tty_ext ''a'' ELIDE tty_start))
     (PrintOnNewLine ''c'' (Print tty_ext ''b'' FULL (Print tty_ext ''a'' ELIDE tty_start))) =
     [Wr [NL], Wr ''c'']"
  by (simp add: tty_start_eq emitted_def printer_defs sample_defs)

end
